theory Spec2Isabelle
  imports Complex_Main "HOL-Library.Word" "HOL-Library.Sublist"
begin

section \<open>JavaScript strings\<close>

text \<open>
  A JavaScript string is a sequence of UTF-16 code units; \<open>length\<close>, \<open>includes\<close> and
  regular expressions without the \<open>u\<close> flag all work on code units. The Russian literals of
  the source are written out as their code units.
\<close>

type_synonym jsstring = "16 word list"

definition ascii :: "string \<Rightarrow> jsstring" where
  "ascii s = map of_char s"

definition is_digit :: "16 word \<Rightarrow> bool" where
  \<comment> \<open>the class \<open>\d\<close>: the ten characters 0 to 9\<close>
  "is_digit c = (0x30 \<le> c \<and> c \<le> 0x39)"

fun str_includes :: "jsstring \<Rightarrow> jsstring \<Rightarrow> bool" where
  \<comment> \<open>\<open>s.includes(pat)\<close>: \<open>pat\<close> occurs at some position of \<open>s\<close>\<close>
  "str_includes [] pat = (pat = [])"
| "str_includes (c # cs) pat = (prefix pat (c # cs) \<or> str_includes cs pat)"

definition digits_only :: "jsstring \<Rightarrow> bool" where
  \<comment> \<open>\<open>/^\d+$/.test(s)\<close>: one or more digits and nothing else\<close>
  "digits_only s = (s \<noteq> [] \<and> list_all is_digit s)"

section \<open>The validation schema (jobSchema)\<close>

text \<open>
  The messages of the schema, lines 16 to 22 of the form's source. Each one is given with an
  English gloss; the definition holds the code units of the Russian literal.
\<close>

definition msg_min_3 :: jsstring where
  \<comment> \<open>title: ``at least 3 characters''\<close>
  "msg_min_3 =
     [0x41C, 0x438, 0x43D, 0x438, 0x43C, 0x443, 0x43C, 0x20, 0x33, 0x20, 0x441, 0x438,
      0x43C, 0x432, 0x43E, 0x43B, 0x430]"

definition msg_max_100 :: jsstring where
  \<comment> \<open>title: ``at most 100 characters''\<close>
  "msg_max_100 =
     [0x41C, 0x430, 0x43A, 0x441, 0x438, 0x43C, 0x443, 0x43C, 0x20, 0x31, 0x30, 0x30, 0x20,
      0x441, 0x438, 0x43C, 0x432, 0x43E, 0x43B, 0x43E, 0x432]"

definition msg_only_digits :: jsstring where
  \<comment> \<open>salary and phone: ``only digits may be entered''\<close>
  "msg_only_digits =
     [0x41C, 0x43E, 0x436, 0x43D, 0x43E, 0x20, 0x432, 0x432, 0x43E, 0x434, 0x438, 0x442,
      0x44C, 0x20, 0x442, 0x43E, 0x43B, 0x44C, 0x43A, 0x43E, 0x20, 0x446, 0x438, 0x444,
      0x440, 0x44B]"

definition msg_choose_city :: jsstring where
  \<comment> \<open>cityId, required_error: ``choose a city''\<close>
  "msg_choose_city =
     [0x412, 0x44B, 0x431, 0x435, 0x440, 0x438, 0x442, 0x435, 0x20, 0x433, 0x43E, 0x440,
      0x43E, 0x434]"

definition msg_min_7 :: jsstring where
  \<comment> \<open>phone: ``at least 7 digits''\<close>
  "msg_min_7 =
     [0x41C, 0x438, 0x43D, 0x438, 0x43C, 0x443, 0x43C, 0x20, 0x37, 0x20, 0x446, 0x438,
      0x444, 0x440]"

definition msg_min_10 :: jsstring where
  \<comment> \<open>description: ``at least 10 characters''\<close>
  "msg_min_10 =
     [0x41C, 0x438, 0x43D, 0x438, 0x43C, 0x443, 0x43C, 0x20, 0x31, 0x30, 0x20, 0x441,
      0x438, 0x43C, 0x432, 0x43E, 0x43B, 0x43E, 0x432]"

definition msg_max_2000 :: jsstring where
  \<comment> \<open>description: ``at most 2000 characters''\<close>
  "msg_max_2000 =
     [0x41C, 0x430, 0x43A, 0x441, 0x438, 0x43C, 0x443, 0x43C, 0x20, 0x32, 0x30, 0x30, 0x30,
      0x20, 0x441, 0x438, 0x43C, 0x432, 0x43E, 0x43B, 0x43E, 0x432]"

text \<open>
  A draft is what the form holds: four text inputs, which are always strings, and the
  selected city. The city selector stores \<open>option?.value\<close>, that is \<open>undefined\<close> (here
  \<open>None\<close>) when nothing is selected and otherwise the \<open>id\<close> of a fetched city as the server
  sent it. The ids are numbers; nothing in the form checks that they are integers, so the
  model takes any finite number (the numbers of a JSON document are finite decimals, hence
  rationals).
\<close>

record draft =
  title :: jsstring
  salary :: jsstring
  cityId :: "rat option"
  phone :: jsstring
  description :: jsstring

datatype field = Title | Salary | CityId | Phone | Description

definition all_fields :: "field list" where
  "all_fields = [Title, Salary, CityId, Phone, Description]"

text \<open>
  The checks chained on a \<open>z.string()\<close>. Zod runs them in the order they are written and
  reports one issue for each check that fails.
\<close>

datatype check = Min nat jsstring | Max nat jsstring | Regex_digits jsstring

fun check_fails :: "check \<Rightarrow> jsstring \<Rightarrow> bool" where
  "check_fails (Min n m) s = (length s < n)"
| "check_fails (Max n m) s = (length s > n)"
| "check_fails (Regex_digits m) s = (\<not> digits_only s)"

fun check_message :: "check \<Rightarrow> jsstring" where
  "check_message (Min n m) = m"
| "check_message (Max n m) = m"
| "check_message (Regex_digits m) = m"

definition string_issues :: "check list \<Rightarrow> jsstring \<Rightarrow> jsstring list" where
  "string_issues checks s = map check_message (filter (\<lambda>c. check_fails c s) checks)"

definition jobSchema_title :: "check list" where
  "jobSchema_title = [Min 3 msg_min_3, Max 100 msg_max_100]"

definition jobSchema_salary :: "check list" where
  "jobSchema_salary = [Regex_digits msg_only_digits]"

definition jobSchema_phone :: "check list" where
  "jobSchema_phone = [Regex_digits msg_only_digits, Min 7 msg_min_7]"

definition jobSchema_description :: "check list" where
  "jobSchema_description = [Min 10 msg_min_10, Max 2000 msg_max_2000]"

definition jobSchema :: "draft \<Rightarrow> field \<Rightarrow> jsstring list" where
  \<comment> \<open>the issues of each field of the object schema; \<open>z.number\<close> rejects \<open>undefined\<close> with
      its \<open>required_error\<close> and accepts every number, whole or not (there is no \<open>.int()\<close>)\<close>
  "jobSchema d f =
     (case f of
        Title \<Rightarrow> string_issues jobSchema_title (title d)
      | Salary \<Rightarrow> string_issues jobSchema_salary (salary d)
      | CityId \<Rightarrow> (case cityId d of None \<Rightarrow> [msg_choose_city] | Some q \<Rightarrow> [])
      | Phone \<Rightarrow> string_issues jobSchema_phone (phone d)
      | Description \<Rightarrow> string_issues jobSchema_description (description d))"

definition zodResolver :: "draft \<Rightarrow> field \<Rightarrow> jsstring option" where
  \<comment> \<open>the resolver keeps, for each field, the message of its first issue\<close>
  "zodResolver d f = (case jobSchema d f of [] \<Rightarrow> None | m # ms \<Rightarrow> Some m)"

definition defaultValues :: draft where
  "defaultValues = \<lparr>title = [], salary = [], cityId = None, phone = [], description = []\<rparr>"

section \<open>Notifications, requests and the other effects\<close>


definition msg_auth_required :: jsstring where
  \<comment> \<open>line 74: ``you must be signed in''\<close>
  "msg_auth_required =
     [0x412, 0x44B, 0x20, 0x434, 0x43E, 0x43B, 0x436, 0x43D, 0x44B, 0x20, 0x431, 0x44B,
      0x442, 0x44C, 0x20, 0x430, 0x432, 0x442, 0x43E, 0x440, 0x438, 0x437, 0x43E, 0x432,
      0x430, 0x43D, 0x44B, 0x21]"

definition msg_created :: jsstring where
  \<comment> \<open>line 85: ``the advertisement was created''\<close>
  "msg_created =
     [0x41E, 0x431, 0x44A, 0x44F, 0x432, 0x43B, 0x435, 0x43D, 0x438, 0x435, 0x20, 0x443,
      0x441, 0x43F, 0x435, 0x448, 0x43D, 0x43E, 0x20, 0x441, 0x43E, 0x437, 0x434, 0x430,
      0x43D, 0x43E, 0x21]"

definition rate_limit_marker :: jsstring where
  \<comment> \<open>line 103: ``you will be able to publish a new advertisement''\<close>
  "rate_limit_marker =
     [0x412, 0x44B, 0x20, 0x441, 0x43C, 0x43E, 0x436, 0x435, 0x442, 0x435, 0x20, 0x43E,
      0x43F, 0x443, 0x431, 0x43B, 0x438, 0x43A, 0x43E, 0x432, 0x430, 0x442, 0x44C, 0x20,
      0x43D, 0x43E, 0x432, 0x43E, 0x435, 0x20, 0x43E, 0x431, 0x44A, 0x44F, 0x432, 0x43B,
      0x435, 0x43D, 0x438, 0x435]"

definition quota_marker :: jsstring where
  \<comment> \<open>line 114: ``you have already placed 10 advertisements''\<close>
  "quota_marker =
     [0x412, 0x44B, 0x20, 0x443, 0x436, 0x435, 0x20, 0x440, 0x430, 0x437, 0x43C, 0x435,
      0x441, 0x442, 0x438, 0x43B, 0x438, 0x20, 0x31, 0x30, 0x20, 0x43E, 0x431, 0x44A,
      0x44F, 0x432, 0x43B, 0x435, 0x43D, 0x438, 0x439]"

definition msg_quota :: jsstring where
  \<comment> \<open>line 116: ``the limit of 10 vacancies is reached; delete one before creating a new one''\<close>
  "msg_quota =
     [0x414, 0x43E, 0x441, 0x442, 0x438, 0x433, 0x43D, 0x443, 0x442, 0x20, 0x43B, 0x438,
      0x43C, 0x438, 0x442, 0x20, 0x432, 0x20, 0x31, 0x30, 0x20, 0x432, 0x430, 0x43A, 0x430,
      0x43D, 0x441, 0x438, 0x439, 0x2E, 0x20, 0x423, 0x434, 0x430, 0x43B, 0x438, 0x442,
      0x435, 0x20, 0x43E, 0x434, 0x43D, 0x43E, 0x20, 0x438, 0x437, 0x20, 0x43D, 0x438,
      0x445, 0x2C, 0x20, 0x43F, 0x440, 0x435, 0x436, 0x434, 0x435, 0x20, 0x447, 0x435,
      0x43C, 0x20, 0x441, 0x43E, 0x437, 0x434, 0x430, 0x442, 0x44C, 0x20, 0x43D, 0x43E,
      0x432, 0x43E, 0x435, 0x2E]"

definition msg_generic :: jsstring where
  \<comment> \<open>lines 126 and 129: ``error while creating the advertisement; try later''\<close>
  "msg_generic =
     [0x41E, 0x448, 0x438, 0x431, 0x43A, 0x430, 0x20, 0x43F, 0x440, 0x438, 0x20, 0x441,
      0x43E, 0x437, 0x434, 0x430, 0x43D, 0x438, 0x438, 0x20, 0x43E, 0x431, 0x44A, 0x44F,
      0x432, 0x43B, 0x435, 0x43D, 0x438, 0x44F, 0x2E, 0x20, 0x41F, 0x43E, 0x43F, 0x440,
      0x43E, 0x431, 0x443, 0x439, 0x442, 0x435, 0x20, 0x43F, 0x43E, 0x437, 0x436, 0x435,
      0x2E]"

definition wait_head :: jsstring where
  \<comment> \<open>line 110, before the minutes: ``wait ''\<close>
  "wait_head =
     [0x41F, 0x43E, 0x434, 0x43E, 0x436, 0x434, 0x438, 0x442, 0x435, 0x20]"

definition wait_mid :: jsstring where
  \<comment> \<open>line 110, between minutes and seconds: `` min ''\<close>
  "wait_mid =
     [0x20, 0x43C, 0x438, 0x43D, 0x20]"

definition wait_tail :: jsstring where
  \<comment> \<open>line 110, after the seconds: `` sec before creating a new advertisement.''\<close>
  "wait_tail =
     [0x20, 0x441, 0x435, 0x43A, 0x20, 0x43F, 0x435, 0x440, 0x435, 0x434, 0x20, 0x441,
      0x43E, 0x437, 0x434, 0x430, 0x43D, 0x438, 0x435, 0x43C, 0x20, 0x43D, 0x43E, 0x432,
      0x43E, 0x433, 0x43E, 0x20, 0x43E, 0x431, 0x44A, 0x44F, 0x432, 0x43B, 0x435, 0x43D,
      0x438, 0x44F, 0x2E]"

definition re_through :: jsstring where
  \<comment> \<open>line 105, the regular expression's first literal: ``in ''\<close>
  "re_through =
     [0x447, 0x435, 0x440, 0x435, 0x437, 0x20]"

definition re_m :: jsstring where
  \<comment> \<open>line 105, the literal after the minutes\<close>
  "re_m =
     [0x43C, 0x20]"

definition re_s :: jsstring where
  \<comment> \<open>line 105, the literal after the seconds\<close>
  "re_s =
     [0x441]"


definition log_job :: jsstring where
  \<comment> \<open>line 97\<close>
  "log_job =
     [0x41E, 0x448, 0x438, 0x431, 0x43A, 0x430, 0x20, 0x43F, 0x440, 0x438, 0x20, 0x441,
      0x43E, 0x437, 0x434, 0x430, 0x43D, 0x438, 0x438, 0x20, 0x43E, 0x431, 0x44A, 0x44F,
      0x432, 0x43B, 0x435, 0x43D, 0x438, 0x44F, 0x3A]"

definition log_premium :: jsstring where
  \<comment> \<open>premium-button.jsx, line 21\<close>
  "log_premium =
     [0x41E, 0x448, 0x438, 0x431, 0x43A, 0x430, 0x20, 0x43F, 0x43E, 0x43B, 0x443, 0x447,
      0x435, 0x43D, 0x438, 0x44F, 0x20, 0x441, 0x442, 0x430, 0x442, 0x443, 0x441, 0x430,
      0x20, 0x50, 0x72, 0x65, 0x6D, 0x69, 0x75, 0x6D, 0x3A]"

text \<open>
  A JSON value, as a response body is after parsing. An object has each key once.
\<close>

datatype json =
  JNull | JBool bool | JNum rat | JStr jsstring | JArr "json list" | JObj "(jsstring \<times> json) list"

fun truthy :: "json \<Rightarrow> bool" where
  \<comment> \<open>a value in a condition: \<open>null\<close>, \<open>false\<close>, 0 and the empty string are false\<close>
  "truthy JNull = False"
| "truthy (JBool b) = b"
| "truthy (JNum q) = (q \<noteq> 0)"
| "truthy (JStr s) = (s \<noteq> [])"
| "truthy (JArr vs) = True"
| "truthy (JObj kvs) = True"

definition if_truthy :: "json option \<Rightarrow> json option" where
  \<comment> \<open>a possibly \<open>undefined\<close> value in a condition: \<open>Some\<close> of the value when it is true\<close>
  "if_truthy v = (case v of None \<Rightarrow> None | Some x \<Rightarrow> if truthy x then Some x else None)"

fun get_prop :: "json \<Rightarrow> jsstring \<Rightarrow> json option" where
  \<comment> \<open>reading a data property: \<open>undefined\<close> (\<open>None\<close>) when the object has no such key, and
      for a value that is not an object (the two names read here are no properties of
      strings, numbers, booleans or arrays)\<close>
  "get_prop (JObj kvs) k = map_of kvs k"
| "get_prop v k = None"

definition key_error :: jsstring where
  "key_error = ascii ''error''"

definition key_errors :: jsstring where
  "key_errors = ascii ''errors''"

text \<open>
  What a failed request carries. An error object has a \<open>message\<close> and, when the server
  answered, a \<open>response\<close> whose \<open>data\<close> is the parsed body (\<open>Some JNull\<close>: an answer without
  data; \<open>None\<close>: no answer at all, as for a network failure or an error that does not come
  from the HTTP client). The body is whatever the server sent: by section 6 of the
  specification \<open>{error: string}\<close> or \<open>{errors: string[]}\<close>, but nothing checks it.
\<close>

datatype exn = Error (response: "json option") (message: jsstring)

definition type_error :: "string \<Rightarrow> exn" where
  \<comment> \<open>the TypeError of calling a method that the value does not have\<close>
  "type_error what = Error None (ascii what)"

datatype 'a outcome = Resolved 'a | Rejected exn

record user =
  user_id :: jsstring

datatype parsed = ParseInt "rat option"
  \<comment> \<open>the number that the built-in \<open>parseInt\<close> returns for this argument; the conversion
      goes through the decimal string of the argument and is left uninterpreted\<close>

datatype payload =
  JobBody jsstring jsstring parsed jsstring jsstring jsstring
    \<comment> \<open>title, salary, cityId, phone, description, userId\<close>
| CheckoutBody jsstring
    \<comment> \<open>clerkUserId\<close>

datatype toast_text = Literal jsstring | T string | StringOf json | Rendered json
  \<comment> \<open>a string; \<open>t(key)\<close>, the translation of a key; the string conversion of a value
      that is not a string; a value that is not a string, handed over as it is\<close>

datatype logged = LogError exn | LogBody json | LogMessage jsstring

datatype event =
  ToastError toast_text
| ToastSuccess toast_text
| ConsoleError jsstring logged
| AxiosGet jsstring
| AxiosPost jsstring payload
| FormReset
| OnJobCreated json
| SetTimeoutNavigate nat string
    \<comment> \<open>\<open>setTimeout(() => navigate(path), ms)\<close>, with the delay first\<close>
| LocationAssign jsstring

fun is_toast :: "event \<Rightarrow> bool" where
  "is_toast (ToastError m) = True"
| "is_toast (ToastSuccess m) = True"
| "is_toast e = False"

fun is_request :: "event \<Rightarrow> bool" where
  "is_request (AxiosGet u) = True"
| "is_request (AxiosPost u p) = True"
| "is_request e = False"

fun is_navigation :: "event \<Rightarrow> bool" where
  "is_navigation (SetTimeoutNavigate ms p) = True"
| "is_navigation e = False"


definition jobs_url :: jsstring where
  "jobs_url = ascii ''http://localhost:3001/api/jobs''"

definition user_url :: "user \<Rightarrow> jsstring" where
  "user_url u = ascii ''http://localhost:3001/api/user/'' @ user_id u"


section \<open>Programs with effects and exceptions\<close>

text \<open>
  A handler of a component is a function from the state to a result and the new state. The
  result is \<open>Inl\<close> of the exception when the handler throws. Every state carries the trace
  of what the handler did to the outside, oldest event first. An \<open>await\<close> is sequencing: the
  outcome of each request is a parameter of the handler that issues it.
\<close>

record effects =
  trace :: "event list"

type_synonym ('s, 'a) prog = "'s \<Rightarrow> (exn + 'a) \<times> 's"

definition return :: "'a \<Rightarrow> ('s, 'a) prog" where
  "return x = (\<lambda>s. (Inr x, s))"

definition throw :: "exn \<Rightarrow> ('s, 'a) prog" where
  "throw e = (\<lambda>s. (Inl e, s))"

definition bind :: "('s, 'a) prog \<Rightarrow> ('a \<Rightarrow> ('s, 'b) prog) \<Rightarrow> ('s, 'b) prog" where
  "bind m f = (\<lambda>s. case m s of (Inl e, s') \<Rightarrow> (Inl e, s') | (Inr x, s') \<Rightarrow> f x s')"

definition seq :: "('s, unit) prog \<Rightarrow> ('s, 'b) prog \<Rightarrow> ('s, 'b) prog" where
  "seq m n = bind m (\<lambda>_. n)"

definition try_catch :: "('s, 'a) prog \<Rightarrow> (exn \<Rightarrow> ('s, 'a) prog) \<Rightarrow> ('s, 'a) prog" where
  "try_catch m h = (\<lambda>s. case m s of (Inl e, s') \<Rightarrow> h e s' | (Inr x, s') \<Rightarrow> (Inr x, s'))"

definition try_finally :: "('s, 'a) prog \<Rightarrow> ('s, unit) prog \<Rightarrow> ('s, 'a) prog" where
  \<comment> \<open>the \<open>finally\<close> block runs on both exits and keeps the result of the body unless it
      throws itself\<close>
  "try_finally m fin =
     (\<lambda>s. case m s of (r, s') \<Rightarrow>
        (case fin s' of (Inl e, s'') \<Rightarrow> (Inl e, s'') | (Inr u, s'') \<Rightarrow> (r, s'')))"

primrec forEach :: "'a list \<Rightarrow> ('a \<Rightarrow> ('s, unit) prog) \<Rightarrow> ('s, unit) prog" where
  "forEach [] f = return ()"
| "forEach (x # xs) f = seq (f x) (forEach xs f)"

definition emit :: "event \<Rightarrow> ('s effects_scheme, unit) prog" where
  "emit e = (\<lambda>s. (Inr (), s\<lparr>trace := trace s @ [e]\<rparr>))"

definition toast_error :: "toast_text \<Rightarrow> ('s effects_scheme, unit) prog" where
  "toast_error m = emit (ToastError m)"

definition toast_success :: "toast_text \<Rightarrow> ('s effects_scheme, unit) prog" where
  "toast_success m = emit (ToastSuccess m)"

definition console_error :: "jsstring \<Rightarrow> logged \<Rightarrow> ('s effects_scheme, unit) prog" where
  "console_error label v = emit (ConsoleError label v)"

definition await :: "'a outcome \<Rightarrow> ('s, 'a) prog" where
  "await r = (case r of Resolved x \<Rightarrow> return x | Rejected e \<Rightarrow> throw e)"

definition axios_get :: "jsstring \<Rightarrow> 'a outcome \<Rightarrow> ('s effects_scheme, 'a) prog" where
  "axios_get url r = seq (emit (AxiosGet url)) (await r)"

definition axios_post :: "jsstring \<Rightarrow> payload \<Rightarrow> 'a outcome \<Rightarrow> ('s effects_scheme, 'a) prog" where
  "axios_post url body r = seq (emit (AxiosPost url body)) (await r)"

section \<open>The job form (JobForm)\<close>


record select_option =
  opt_value :: rat
  opt_label :: jsstring

record form_state = effects +
  cities :: "select_option list"
  loading :: bool
  formValues :: draft
  formErrors :: "field \<Rightarrow> jsstring option"

definition form_init :: form_state where
  \<comment> \<open>the state after the first render: \<open>useState([])\<close>, \<open>useState(true)\<close>, \<open>defaultValues\<close>\<close>
  "form_init = \<lparr>trace = [], cities = [], loading = True, formValues = defaultValues,
     formErrors = (\<lambda>f. None)\<rparr>"



definition setValue_cityId :: "select_option option \<Rightarrow> (form_state, unit) prog" where
  \<comment> \<open>line 185: \<open>setValue('cityId', option?.value)\<close>\<close>
  "setValue_cityId opt = (\<lambda>s. (Inr (), s\<lparr>formValues := (formValues s)\<lparr>cityId := map_option opt_value opt\<rparr>\<rparr>))"

definition reset :: "(form_state, unit) prog" where
  \<comment> \<open>\<open>reset()\<close> without arguments: back to \<open>defaultValues\<close>, with the errors cleared\<close>
  "reset = (\<lambda>s. (Inr (), s\<lparr>trace := trace s @ [FormReset], formValues := defaultValues,
     formErrors := (\<lambda>f. None)\<rparr>))"


subsection \<open>The wait time of a rate-limit message\<close>

text \<open>
  Line 105 matches the message against a regular expression: the word for ``in'' and a
  space, one or more digits (the first group), a letter and a space, one or more digits
  (the second group), a letter. \<open>match\<close> returns the leftmost match. Each \<open>\d+\<close> is greedy
  and is followed by a letter, so taking fewer digits can never make a match succeed:
  at one position the attempt is deterministic.
\<close>

definition match_at :: "jsstring \<Rightarrow> (jsstring \<times> jsstring) option" where
  "match_at s =
     (if prefix re_through s then
        let r1 = drop (length re_through) s;
            minutes = takeWhile is_digit r1;
            r2 = dropWhile is_digit r1
        in if minutes \<noteq> [] \<and> prefix re_m r2 then
             let r3 = drop (length re_m) r2;
                 seconds = takeWhile is_digit r3;
                 r4 = dropWhile is_digit r3
             in if seconds \<noteq> [] \<and> prefix re_s r4 then Some (minutes, seconds) else None
           else None
      else None)"

fun wait_match :: "jsstring \<Rightarrow> (jsstring \<times> jsstring) option" where
  "wait_match [] = match_at []"
| "wait_match (c # cs) =
     (case match_at (c # cs) of Some r \<Rightarrow> Some r | None \<Rightarrow> wait_match cs)"

definition wait_message :: "jsstring \<Rightarrow> jsstring \<Rightarrow> jsstring" where
  \<comment> \<open>the template literal of line 110\<close>
  "wait_message minutesLeft secondsLeft =
     wait_head @ minutesLeft @ wait_mid @ secondsLeft @ wait_tail"

subsection \<open>Submission\<close>

definition js_includes :: "json \<Rightarrow> jsstring \<Rightarrow> ('s, bool) prog" where
  \<comment> \<open>\<open>v.includes(pat)\<close>: the substring test of a string, the membership test of an array
      (an element is equal to \<open>pat\<close> when it is that string); any other value has no such
      method and the call throws\<close>
  "js_includes v pat =
     (case v of
        JStr s \<Rightarrow> return (str_includes s pat)
      | JArr vs \<Rightarrow> return (JStr pat \<in> set vs)
      | _ \<Rightarrow> throw (type_error ''errorMessage.includes is not a function''))"

definition js_match :: "json \<Rightarrow> ('s, (jsstring \<times> jsstring) option) prog" where
  \<comment> \<open>\<open>v.match(/.../)\<close> with the expression of line 105: only a string has the method\<close>
  "js_match v =
     (case v of
        JStr s \<Rightarrow> return (wait_match s)
      | _ \<Rightarrow> throw (type_error ''errorMessage.match is not a function''))"

definition js_forEach :: "json \<Rightarrow> (json \<Rightarrow> ('s, unit) prog) \<Rightarrow> ('s, unit) prog" where
  \<comment> \<open>\<open>v.forEach(f)\<close>: only an array has the method\<close>
  "js_forEach v f =
     (case v of
        JArr vs \<Rightarrow> forEach vs f
      | _ \<Rightarrow> throw (type_error ''error.response.data.errors.forEach is not a function''))"

definition shown :: "json \<Rightarrow> toast_text" where
  \<comment> \<open>the argument of \<open>toast.error(v)\<close>\<close>
  "shown v = (case v of JStr s \<Rightarrow> Literal s | _ \<Rightarrow> Rendered v)"

definition template :: "json \<Rightarrow> toast_text" where
  \<comment> \<open>the template literal of line 123, a string conversion\<close>
  "template v = (case v of JStr s \<Rightarrow> Literal s | _ \<Rightarrow> StringOf v)"

definition call_onJobCreated :: "(json \<Rightarrow> exn option) \<Rightarrow> json \<Rightarrow> (form_state, unit) prog" where
  \<comment> \<open>the caller's callback is called with the record; it returns (\<open>None\<close>) or throws\<close>
  "call_onJobCreated cb v =
     seq (emit (OnJobCreated v)) (case cb v of None \<Rightarrow> return () | Some e \<Rightarrow> throw e)"

definition setTimeout_navigate :: "nat \<Rightarrow> string \<Rightarrow> (form_state, unit) prog" where
  "setTimeout_navigate ms path = emit (SetTimeoutNavigate ms path)"

definition onSubmit_catch :: "exn \<Rightarrow> (form_state, unit) prog" where
  \<comment> \<open>lines 96 to 131; no \<open>try\<close> encloses them, so what they throw leaves the handler\<close>
  "onSubmit_catch err =
     seq (console_error log_job
            (case if_truthy (response err) of
               Some d \<Rightarrow> LogBody d
             | None \<Rightarrow> LogMessage (message err)))
       (case if_truthy (response err) of
          Some d \<Rightarrow>
            (case if_truthy (get_prop d key_error) of
               Some errorMessage \<Rightarrow>
                 bind (js_includes errorMessage rate_limit_marker) (\<lambda>rate_limited.
                   if rate_limited then
                     bind (js_match errorMessage) (\<lambda>match.
                       case match of
                         Some (minutesLeft, secondsLeft) \<Rightarrow>
                           toast_error (Literal (wait_message minutesLeft secondsLeft))
                       | None \<Rightarrow> toast_error (shown errorMessage))
                   else
                     bind (js_includes errorMessage quota_marker) (\<lambda>over_quota.
                       if over_quota then toast_error (Literal msg_quota)
                       else toast_error (shown errorMessage)))
             | None \<Rightarrow>
                 (case if_truthy (get_prop d key_errors) of
                    Some errs \<Rightarrow> js_forEach errs (\<lambda>e. toast_error (template e))
                  | None \<Rightarrow> toast_error (Literal msg_generic)))
        | None \<Rightarrow> toast_error (Literal msg_generic))"

definition onSubmit ::
  "user option \<Rightarrow> (json \<Rightarrow> exn option) option \<Rightarrow> json outcome \<Rightarrow> draft \<Rightarrow> (form_state, unit) prog"
where
  \<comment> \<open>lines 72 to 132; \<open>post_result\<close> is what the request settles to, if it is issued\<close>
  "onSubmit usr onJobCreated post_result data =
     (case usr of
        None \<Rightarrow> toast_error (Literal msg_auth_required)
      | Some u \<Rightarrow>
          try_catch
            (bind (axios_post jobs_url
                     (JobBody (title data) (salary data) (ParseInt (cityId data)) (phone data)
                        (description data) (user_id u))
                     post_result) (\<lambda>response_data.
             seq (toast_success (Literal msg_created))
            (seq reset
            (seq (case onJobCreated of
                    None \<Rightarrow> return ()
                  | Some cb \<Rightarrow> call_onJobCreated cb response_data)
                 (setTimeout_navigate 2000 ''/'')))))
            onSubmit_catch)"

definition handleSubmit :: "(draft \<Rightarrow> (form_state, unit) prog) \<Rightarrow> (form_state, unit) prog" where
  \<comment> \<open>Modelled from the spec: \<open>handleSubmit\<close> and \<open>zodResolver\<close> are the form library's, not
      under src/. On submit the draft is validated against the schema; the messages become
      the form's errors; the handler runs only when no field has one (section 4.1).\<close>
  "handleSubmit onValid =
     (\<lambda>s. let errs = zodResolver (formValues s);
               s' = s\<lparr>formErrors := errs\<rparr>
           in if list_all (\<lambda>f. errs f = None) all_fields then onValid (formValues s) s'
              else (Inr (), s'))"

definition submit_form ::
  "user option \<Rightarrow> (json \<Rightarrow> exn option) option \<Rightarrow> json outcome \<Rightarrow> (form_state, unit) prog"
where
  \<comment> \<open>line 139: \<open>onSubmit={handleSubmit(onSubmit)}\<close>\<close>
  "submit_form usr onJobCreated post_result = handleSubmit (onSubmit usr onJobCreated post_result)"

definition JobForm_inline :: "form_state \<Rightarrow> field \<Rightarrow> jsstring option" where
  \<comment> \<open>the message paragraph rendered under each field: lines 154, 171, 191 and 208; the
      description block, lines 212 to 223, has none\<close>
  "JobForm_inline s f =
     (case f of
        Title \<Rightarrow> formErrors s Title
      | Salary \<Rightarrow> formErrors s Salary
      | CityId \<Rightarrow> formErrors s CityId
      | Phone \<Rightarrow> formErrors s Phone
      | Description \<Rightarrow> None)"

section \<open>The premium panel (PremiumButton)\<close>

record premium_status =
  data_isPremium :: bool

record checkout_session =
  url :: jsstring

record premium_state = effects +
  isPremium :: bool

definition premium_init :: premium_state where
  "premium_init = \<lparr>trace = [], isPremium = False\<rparr>"

definition setIsPremium :: "bool \<Rightarrow> (premium_state, unit) prog" where
  "setIsPremium b = (\<lambda>s. (Inr (), s\<lparr>isPremium := b\<rparr>))"

definition fetchUserPremiumStatus :: "user option \<Rightarrow> premium_status outcome \<Rightarrow> (premium_state, unit) prog" where
  "fetchUserPremiumStatus usr get_result =
     (case usr of
        None \<Rightarrow> return ()
      | Some u \<Rightarrow>
          try_catch
            (bind (axios_get (user_url u) get_result) (\<lambda>data. setIsPremium (data_isPremium data)))
            (\<lambda>err. console_error log_premium (LogError err)))"



datatype footer = Label toast_text | PurchaseButton toast_text
  \<comment> \<open>the bottom of the sheet: a text, or the button whose click is \<open>handleCheckout\<close>\<close>

record premium_view =
  trigger_class :: string
  trigger_label :: toast_text
  sheet_footer :: footer

definition PremiumButton_render :: "premium_state \<Rightarrow> premium_view" where
  \<comment> \<open>lines 43 to 45 and 90 to 100\<close>
  "PremiumButton_render s =
     \<lparr>trigger_class = (if isPremium s then ''btn btn-primary'' else ''btn btn-warning''),
      trigger_label = (if isPremium s then T ''premium_active'' else T ''premium''),
      sheet_footer = (if isPremium s then Label (T ''purchased'') else PurchaseButton (T ''purchase''))\<rparr>"

section \<open>Observing a handler\<close>

definition emitted :: "('s effects_scheme, 'a) prog \<Rightarrow> 's effects_scheme \<Rightarrow> event list" where
  \<comment> \<open>the events that running the handler from a state adds to the trace\<close>
  "emitted p s = drop (length (trace s)) (trace (snd (p s)))"

definition toasts :: "('s effects_scheme, 'a) prog \<Rightarrow> 's effects_scheme \<Rightarrow> event list" where
  \<comment> \<open>the notifications among them\<close>
  "toasts p s = filter is_toast (emitted p s)"


definition is_feedback :: "event \<Rightarrow> bool" where
  \<comment> \<open>an error notification or a line on the console\<close>
  "is_feedback e = (case e of ToastError m \<Rightarrow> True | ConsoleError l v \<Rightarrow> True | _ \<Rightarrow> False)"

definition appends :: "(event \<Rightarrow> bool) \<Rightarrow> (form_state, 'a) prog \<Rightarrow> bool" where
  \<comment> \<open>the program, whether it returns or throws, only adds events of one kind to the trace\<close>
  "appends P m = (\<forall>s. \<exists>ts. snd (m s) = s\<lparr>trace := trace s @ ts\<rparr> \<and> list_all P ts)"

definition job_request :: "user \<Rightarrow> draft \<Rightarrow> event" where
  \<comment> \<open>the request of lines 79 to 83\<close>
  "job_request u d = AxiosPost jobs_url
     (JobBody (title d) (salary d) (ParseInt (cityId d)) (phone d) (description d) (user_id u))"

definition after_reset :: "form_state \<Rightarrow> event list \<Rightarrow> form_state" where
  \<comment> \<open>a state whose form is back to its defaults and whose trace has grown\<close>
  "after_reset s evs =
     s\<lparr>formValues := defaultValues, formErrors := (\<lambda>f. None), trace := trace s @ evs\<rparr>"

definition satisfies_constraints :: "draft \<Rightarrow> bool" where
  \<comment> \<open>the constraints that the validation tests, in the words of the specification
      (section 3) but for the city id, of which only the presence is required: a title of 3
      to 100 characters, a salary that is a string of digits, a city id that is a number, a
      phone of digits with at least 7 of them, a description of 10 to 2000 characters;
      characters are counted as the language counts them, in code units\<close>
  "satisfies_constraints d =
     (3 \<le> length (title d) \<and> length (title d) \<le> 100 \<and>
      digits_only (salary d) \<and>
      cityId d \<noteq> None \<and>
      digits_only (phone d) \<and> 7 \<le> length (phone d) \<and>
      10 \<le> length (description d) \<and> length (description d) \<le> 2000)"

definition is_integer :: "rat \<Rightarrow> bool" where
  "is_integer q = (frac q = 0)"

definition satisfies_data_model :: "draft \<Rightarrow> bool" where
  \<comment> \<open>the constraints of the data model as the specification words them (section 3): as
      above, with a city id that is an integer\<close>
  "satisfies_data_model d =
     (3 \<le> length (title d) \<and> length (title d) \<le> 100 \<and>
      digits_only (salary d) \<and>
      (case cityId d of None \<Rightarrow> False | Some q \<Rightarrow> is_integer q) \<and>
      digits_only (phone d) \<and> 7 \<le> length (phone d) \<and>
      10 \<le> length (description d) \<and> length (description d) \<le> 2000)"


definition wait_5m_30s :: jsstring where
  \<comment> \<open>the wait time of the specification's example: ``in 5m 30s''\<close>
  "wait_5m_30s = [0x447, 0x435, 0x440, 0x435, 0x437, 0x20, 0x35, 0x43C, 0x20, 0x33, 0x30, 0x441]"

subsection \<open>Concrete inputs\<close>

definition example_draft :: draft where
  "example_draft = \<lparr>title = ascii ''Cook'', salary = ascii ''50'', cityId = Some 1,
     phone = ascii ''0501234567'', description = ascii ''Night shifts in a bakery''\<rparr>"

definition example_user :: user where
  "example_user = \<lparr>user_id = ascii ''user_1''\<rparr>"

definition example_state :: form_state where
  "example_state = form_init\<lparr>loading := False, formValues := example_draft\<rparr>"

definition short_description_state :: form_state where
  \<comment> \<open>the example draft with a description of five characters\<close>
  "short_description_state =
     form_init\<lparr>loading := False, formValues := example_draft\<lparr>description := ascii ''short''\<rparr>\<rparr>"

definition fractional_city_state :: form_state where
  \<comment> \<open>the example draft with the city of a list in which the server gave the id 1.5\<close>
  "fractional_city_state =
     form_init\<lparr>loading := False, formValues := example_draft\<lparr>cityId := Some (3 / 2)\<rparr>\<rparr>"

definition returning_callback :: "json \<Rightarrow> exn option" where
  "returning_callback v = None"

definition throwing_callback :: "json \<Rightarrow> exn option" where
  \<comment> \<open>a callback that throws an error without \<open>response\<close>, as a TypeError is\<close>
  "throwing_callback v = Some (Error None (ascii ''setJobs is not a function''))"

definition network_error :: exn where
  \<comment> \<open>a request that got no answer\<close>
  "network_error = Error None (ascii ''Network Error'')"

definition server_error :: "json \<Rightarrow> exn" where
  \<comment> \<open>the error of a request that the server answered with this body\<close>
  "server_error d = Error (Some d) (ascii ''Request failed with status code 400'')"

definition error_body :: "jsstring \<Rightarrow> json" where
  \<comment> \<open>\<open>{error: msg}\<close>\<close>
  "error_body msg = JObj [(key_error, JStr msg)]"

definition quota_with_wait :: jsstring where
  \<comment> \<open>the quota marker, a space, the wait time\<close>
  "quota_with_wait = quota_marker @ [0x20] @ wait_5m_30s"

definition rate_limit_with_wait :: jsstring where
  \<comment> \<open>the rate-limit marker, a space, the wait time\<close>
  "rate_limit_with_wait = rate_limit_marker @ [0x20] @ wait_5m_30s"

definition both_markers :: jsstring where
  \<comment> \<open>the rate-limit marker, a space, the quota marker; no wait time\<close>
  "both_markers = rate_limit_marker @ [0x20] @ quota_marker"

definition two_wait_times :: jsstring where
  \<comment> \<open>the rate-limit marker, then `` in 1m 2s, '', then the wait time ``in 5m 30s''\<close>
  "two_wait_times = rate_limit_marker @
     [0x20, 0x447, 0x435, 0x440, 0x435, 0x437, 0x20, 0x31, 0x43C, 0x20, 0x32, 0x441, 0x2C, 0x20]
     @ wait_5m_30s"

definition plain_with_wait :: jsstring where
  \<comment> \<open>``Retry '' and the wait time: neither marker\<close>
  "plain_with_wait = ascii ''Retry '' @ wait_5m_30s"

definition empty_error_with_list :: json where
  \<comment> \<open>\<open>{error: "", errors: ["Title is required"]}\<close>\<close>
  "empty_error_with_list =
     JObj [(key_error, JStr []), (key_errors, JArr [JStr (ascii ''Title is required'')])]"

definition both_markers_with_list :: json where
  \<comment> \<open>both markers in the \<open>error\<close> string, and a list of errors beside it\<close>
  "both_markers_with_list =
     JObj [(key_error, JStr both_markers), (key_errors, JArr [JStr (ascii ''Title is required'')])]"

definition numeric_error_body :: json where
  \<comment> \<open>\<open>{error: 429}\<close>: an \<open>error\<close> that is not a string\<close>
  "numeric_error_body = JObj [(key_error, JNum 429)]"

definition text_errors_body :: json where
  \<comment> \<open>\<open>{errors: "Title is required"}\<close>: an \<open>errors\<close> that is not an array\<close>
  "text_errors_body = JObj [(key_errors, JStr (ascii ''Title is required''))]"

section \<open>Basic facts\<close>

lemmas prog_defs = return_def throw_def bind_def seq_def try_catch_def try_finally_def emit_def
  toast_error_def toast_success_def console_error_def await_def axios_get_def axios_post_def

lemmas example_defs = example_draft_def example_user_def example_state_def
  short_description_state_def fractional_city_state_def form_init_def defaultValues_def ascii_def

lemma resolver_accepts_iff:
  "list_all (\<lambda>f. zodResolver d f = None) all_fields \<longleftrightarrow> satisfies_constraints d"
  by (auto simp: all_fields_def zodResolver_def jobSchema_def string_issues_def
      jobSchema_title_def jobSchema_salary_def jobSchema_phone_def jobSchema_description_def
      satisfies_constraints_def split: list.splits option.splits)

lemma submit_invalid:
  "\<not> satisfies_constraints (formValues s) \<Longrightarrow>
   submit_form usr cb r s = (Inr (), s\<lparr>formErrors := zodResolver (formValues s)\<rparr>)"
  by (simp add: submit_form_def handleSubmit_def resolver_accepts_iff Let_def)

lemma submit_valid:
  "satisfies_constraints (formValues s) \<Longrightarrow>
   submit_form usr cb r s =
     onSubmit usr cb r (formValues s) (s\<lparr>formErrors := zodResolver (formValues s)\<rparr>)"
  by (simp add: submit_form_def handleSubmit_def resolver_accepts_iff Let_def)

lemma example_draft_ok: "satisfies_constraints example_draft"
  by (simp add: satisfies_constraints_def example_defs digits_only_def is_digit_def)

lemma short_description_not_ok: "\<not> satisfies_constraints (formValues short_description_state)"
  by (simp add: satisfies_constraints_def example_defs)

lemma onSubmit_no_user:
  "onSubmit None cb r d s =
     (Inr (), s\<lparr>trace := trace s @ [ToastError (Literal msg_auth_required)]\<rparr>)"
  by (simp add: onSubmit_def prog_defs)

lemma forEach_template:
  "forEach vs (\<lambda>e. toast_error (template e)) s =
     (Inr (), s\<lparr>trace := trace s @ map (\<lambda>e. ToastError (template e)) vs\<rparr>)"
  by (induction vs arbitrary: s) (simp_all add: prog_defs)


lemma if_truthy_None: "if_truthy v = None \<longleftrightarrow> (\<forall>x. v = Some x \<longrightarrow> \<not> truthy x)"
  by (auto simp: if_truthy_def split: option.splits)

lemma get_prop_truthy: "get_prop d k = Some v \<Longrightarrow> truthy d"
  by (cases d) simp_all

lemma keys_differ: "key_error \<noteq> key_errors"
  by (simp add: key_error_def key_errors_def ascii_def)

lemma fractional_city_accepted: "satisfies_constraints (formValues fractional_city_state)"
  by (simp add: satisfies_constraints_def example_defs digits_only_def is_digit_def)

lemma fractional_city_not_integer: "\<not> satisfies_data_model (formValues fractional_city_state)"
  by (simp add: satisfies_data_model_def is_integer_def example_defs)

lemma data_model_implies_constraints: "satisfies_data_model d \<Longrightarrow> satisfies_constraints d"
  by (auto simp: satisfies_data_model_def satisfies_constraints_def split: option.splits)

subsection \<open>Substrings and the wait-time match\<close>

lemma str_includes_iff: "str_includes s p \<longleftrightarrow> (\<exists>a b. s = a @ p @ b)"
proof (induction s)
  case Nil
  then show ?case by auto
next
  case (Cons c cs)
  show ?case
  proof
    assume "str_includes (c # cs) p"
    then consider "prefix p (c # cs)" | "str_includes cs p" by auto
    then show "\<exists>a b. c # cs = a @ p @ b"
    proof cases
      case 1
      then obtain zs where "c # cs = p @ zs" by (auto simp: prefix_def)
      then have "c # cs = [] @ p @ zs" by simp
      then show ?thesis by blast
    next
      case 2
      with Cons.IH obtain a b where "cs = a @ p @ b" by blast
      then have "c # cs = (c # a) @ p @ b" by simp
      then show ?thesis by blast
    qed
  next
    assume "\<exists>a b. c # cs = a @ p @ b"
    then obtain a b where ab: "c # cs = a @ p @ b" by blast
    show "str_includes (c # cs) p"
    proof (cases a)
      case Nil
      with ab have "prefix p (c # cs)" by (simp add: prefix_def)
      then show ?thesis by simp
    next
      case (Cons x a')
      with ab have "cs = a' @ p @ b" by simp
      with Cons.IH have "str_includes cs p" by blast
      then show ?thesis by simp
    qed
  qed
qed

lemma str_includes_nonempty: "str_includes s p \<Longrightarrow> p \<noteq> [] \<Longrightarrow> s \<noteq> []"
  by (cases s) auto

lemma match_at_wait_5m_30s: "match_at (wait_5m_30s @ post) = Some ([0x35], [0x33, 0x30])"
  by (simp add: match_at_def wait_5m_30s_def re_through_def re_m_def re_s_def is_digit_def)

lemma wait_match_wait_5m_30s: "wait_match (wait_5m_30s @ post) = Some ([0x35], [0x33, 0x30])"
proof -
  obtain c cs where "wait_5m_30s @ post = c # cs" by (simp add: wait_5m_30s_def)
  then show ?thesis using match_at_wait_5m_30s [of post] by simp
qed

lemma wait_match_skip:
  "\<forall>k<length pre. match_at (drop k (pre @ rest)) = None \<Longrightarrow>
   wait_match (pre @ rest) = wait_match rest"
proof (induction pre)
  case Nil
  then show ?case by simp
next
  case (Cons a pre)
  from Cons.prems have h0: "match_at ((a # pre) @ rest) = None" by force
  have "\<forall>k<length pre. match_at (drop k (pre @ rest)) = None"
  proof (intro allI impI)
    fix k assume "k < length pre"
    then have "Suc k < length (a # pre)" by simp
    with Cons.prems have "match_at (drop (Suc k) ((a # pre) @ rest)) = None" by blast
    then show "match_at (drop k (pre @ rest)) = None" by simp
  qed
  with Cons.IH have "wait_match (pre @ rest) = wait_match rest" .
  with h0 show ?case by simp
qed

lemma match_at_first_letter: "match_at s \<noteq> None \<Longrightarrow> \<exists>cs. s = 0x447 # cs"
  by (cases s) (auto simp: match_at_def re_through_def split: if_splits)

lemma no_first_letter_no_match:
  assumes "0x447 \<notin> set pre"
  shows "\<forall>k<length pre. match_at (drop k (pre @ rest)) = None"
proof (intro allI impI)
  fix k assume k: "k < length pre"
  then have d: "drop k (pre @ rest) = (pre ! k) # drop (Suc k) (pre @ rest)"
    by (metis Cons_nth_drop_Suc length_append nth_append trans_less_add1)
  from k assms have ne: "pre ! k \<noteq> 0x447" by (metis nth_mem)
  show "match_at (drop k (pre @ rest)) = None"
  proof (rule ccontr)
    assume "match_at (drop k (pre @ rest)) \<noteq> None"
    then obtain cs where "drop k (pre @ rest) = 0x447 # cs"
      using match_at_first_letter by blast
    with d have "pre ! k = 0x447" by (metis list.inject)
    with ne show False by contradiction
  qed
qed

subsection \<open>Programs that only add events\<close>

lemma appends_return: "appends P (return x)"
  by (auto simp: appends_def return_def intro: exI [of _ "[]"])

lemma appends_throw: "appends P (throw e)"
  by (auto simp: appends_def throw_def intro: exI [of _ "[]"])

lemma appends_emit: "P e \<Longrightarrow> appends P (emit e)"
proof -
  assume "P e"
  then have "snd (emit e s) = s\<lparr>trace := trace s @ [e]\<rparr> \<and> list_all P [e]" for s :: form_state
    by (simp add: emit_def)
  then show ?thesis unfolding appends_def by blast
qed

lemma appends_bind:
  assumes m: "appends P m" and f: "\<And>x. appends P (f x)"
  shows "appends P (bind m f)"
  unfolding appends_def
proof
  fix s
  from m obtain ts where ts: "snd (m s) = s\<lparr>trace := trace s @ ts\<rparr>" "list_all P ts"
    unfolding appends_def by blast
  show "\<exists>us. snd (bind m f s) = s\<lparr>trace := trace s @ us\<rparr> \<and> list_all P us"
  proof (cases "fst (m s)")
    case (Inl e)
    then have "snd (bind m f s) = snd (m s)"
      by (auto simp: bind_def split: prod.splits sum.splits)
    with ts show ?thesis by auto
  next
    case (Inr x)
    from f [of x] obtain us where
      us: "snd (f x (snd (m s))) = (snd (m s))\<lparr>trace := trace (snd (m s)) @ us\<rparr>" "list_all P us"
      unfolding appends_def by blast
    from Inr have "snd (bind m f s) = snd (f x (snd (m s)))"
      by (auto simp: bind_def split: prod.splits sum.splits)
    with us ts have "snd (bind m f s) = s\<lparr>trace := trace s @ (ts @ us)\<rparr> \<and> list_all P (ts @ us)"
      by simp
    then show ?thesis by blast
  qed
qed

lemma appends_seq: "appends P m \<Longrightarrow> appends P n \<Longrightarrow> appends P (seq m n)"
  by (simp add: seq_def appends_bind)

lemma appends_forEach: "(\<And>x. appends P (f x)) \<Longrightarrow> appends P (forEach xs f)"
  by (induction xs) (simp_all add: appends_return appends_seq)

lemma appends_toast_error: "appends is_feedback (toast_error m)"
  by (simp add: toast_error_def appends_emit is_feedback_def)

lemma appends_js_includes: "appends P (js_includes v pat)"
  by (cases v) (simp_all add: js_includes_def appends_return appends_throw)

lemma appends_js_match: "appends P (js_match v)"
  by (cases v) (simp_all add: js_match_def appends_return appends_throw)

lemma appends_js_forEach: "(\<And>x. appends P (f x)) \<Longrightarrow> appends P (js_forEach v f)"
  by (cases v) (simp_all add: js_forEach_def appends_forEach appends_throw)

lemma onSubmit_catch_appends: "appends is_feedback (onSubmit_catch err)"
  unfolding onSubmit_catch_def
  by (intro appends_seq)
    (auto simp: console_error_def is_feedback_def
      intro!: appends_emit appends_bind appends_toast_error appends_js_includes appends_js_match
        appends_js_forEach
      split: option.splits)

lemma feedback_only:
  "is_feedback e \<Longrightarrow> \<not> is_navigation e \<and> \<not> is_request e \<and> e \<noteq> FormReset"
  by (cases e) (simp_all add: is_feedback_def)

subsection \<open>The branches of the submit handler\<close>

lemma onSubmit_rejected:
  "onSubmit (Some u) cb (Rejected err) d s =
     onSubmit_catch err (s\<lparr>trace := trace s @ [job_request u d]\<rparr>)"
  by (simp add: onSubmit_def prog_defs job_request_def)

lemma onSubmit_resolved_no_callback:
  "onSubmit (Some u) None (Resolved v) d s =
     (Inr (), after_reset s [job_request u d, ToastSuccess (Literal msg_created), FormReset,
        SetTimeoutNavigate 2000 ''/''])"
  by (simp add: onSubmit_def prog_defs reset_def setTimeout_navigate_def job_request_def
      after_reset_def)

lemma onSubmit_resolved_callback_returns:
  "f v = None \<Longrightarrow> onSubmit (Some u) (Some f) (Resolved v) d s =
     (Inr (), after_reset s [job_request u d, ToastSuccess (Literal msg_created), FormReset,
        OnJobCreated v, SetTimeoutNavigate 2000 ''/''])"
  by (simp add: onSubmit_def prog_defs reset_def setTimeout_navigate_def job_request_def
      after_reset_def call_onJobCreated_def)

lemma onSubmit_resolved_callback_throws:
  "f v = Some e \<Longrightarrow> onSubmit (Some u) (Some f) (Resolved v) d s =
     onSubmit_catch e (after_reset s [job_request u d, ToastSuccess (Literal msg_created),
        FormReset, OnJobCreated v])"
  by (simp add: onSubmit_def prog_defs reset_def setTimeout_navigate_def job_request_def
      after_reset_def call_onJobCreated_def)

lemma onSubmit_catch_error_string:
  assumes "response err = Some d" "get_prop d key_error = Some (JStr msg)" "msg \<noteq> []"
  shows "onSubmit_catch err s = (Inr (), s\<lparr>trace := trace s @ [ConsoleError log_job (LogBody d),
     ToastError (Literal
       (if str_includes msg rate_limit_marker then
          (case wait_match msg of Some (m, sec) \<Rightarrow> wait_message m sec | None \<Rightarrow> msg)
        else if str_includes msg quota_marker then msg_quota else msg))]\<rparr>)"
proof -
  from assms(2) have "truthy d" by (rule get_prop_truthy)
  with assms show ?thesis
    by (auto simp: onSubmit_catch_def prog_defs if_truthy_def js_includes_def js_match_def
        shown_def split: option.splits)
qed

lemma onSubmit_catch_no_fields:
  assumes "response err = Some d" "truthy d"
    "if_truthy (get_prop d key_error) = None" "if_truthy (get_prop d key_errors) = None"
  shows "onSubmit_catch err s = (Inr (), s\<lparr>trace := trace s @
     [ConsoleError log_job (LogBody d), ToastError (Literal msg_generic)]\<rparr>)"
  using assms by (simp add: onSubmit_catch_def prog_defs if_truthy_def)

lemma onSubmit_catch_errors_array:
  assumes "response err = Some d"
    "if_truthy (get_prop d key_error) = None" "get_prop d key_errors = Some (JArr vs)"
  shows "onSubmit_catch err s = (Inr (), s\<lparr>trace := trace s @
     ConsoleError log_job (LogBody d) # map (\<lambda>e. ToastError (template e)) vs\<rparr>)"
proof -
  from assms(3) have "truthy d" by (rule get_prop_truthy)
  with assms show ?thesis
    by (simp add: onSubmit_catch_def seq_def bind_def console_error_def emit_def if_truthy_def
        js_forEach_def forEach_template)
qed

lemma onSubmit_catch_no_body:
  assumes "if_truthy (response err) = None"
  shows "onSubmit_catch err s = (Inr (), s\<lparr>trace := trace s @
     [ConsoleError log_job (LogMessage (message err)), ToastError (Literal msg_generic)]\<rparr>)"
  using assms by (simp add: onSubmit_catch_def prog_defs)


subsection \<open>The notifications of a failed request\<close>

lemmas string_defs = rate_limit_marker_def quota_marker_def msg_quota_def wait_5m_30s_def
  wait_message_def wait_head_def wait_mid_def wait_tail_def

lemma response_server_error: "response (server_error body) = Some body"
  by (simp add: server_error_def)

lemma get_prop_error_body: "get_prop (error_body msg) key_error = Some (JStr msg)"
  by (simp add: error_body_def)

lemma error_body_no_errors: "get_prop (error_body msg) key_errors = None"
  using keys_differ by (simp add: error_body_def)

lemma toasts_rejected_error_string:
  assumes "response err = Some body" "get_prop body key_error = Some (JStr msg)" "msg \<noteq> []"
  shows "toasts (onSubmit (Some u) cb (Rejected err) d) s = [ToastError (Literal
       (if str_includes msg rate_limit_marker then
          (case wait_match msg of Some (m, sec) \<Rightarrow> wait_message m sec | None \<Rightarrow> msg)
        else if str_includes msg quota_marker then msg_quota else msg))]"
  by (simp add: toasts_def emitted_def onSubmit_rejected onSubmit_catch_error_string [OF assms]
      job_request_def)

lemma toasts_rejected_no_fields:
  assumes "response err = Some body" "truthy body"
    "if_truthy (get_prop body key_error) = None" "if_truthy (get_prop body key_errors) = None"
  shows "toasts (onSubmit (Some u) cb (Rejected err) d) s = [ToastError (Literal msg_generic)]"
  by (simp add: toasts_def emitted_def onSubmit_rejected onSubmit_catch_no_fields [OF assms]
      job_request_def)

lemma toasts_rejected_errors_array:
  assumes "response err = Some body"
    "if_truthy (get_prop body key_error) = None" "get_prop body key_errors = Some (JArr vs)"
  shows "toasts (onSubmit (Some u) cb (Rejected err) d) s = map (\<lambda>e. ToastError (template e)) vs"
  by (simp add: toasts_def emitted_def onSubmit_rejected onSubmit_catch_errors_array [OF assms]
      job_request_def filter_id_conv)


lemma wait_message_5_30:
  "str_includes (wait_message [0x35] [0x33, 0x30]) [0x35] \<and>
   str_includes (wait_message [0x35] [0x33, 0x30]) [0x33, 0x30]"
  by (simp add: string_defs)

lemma includes_5_30:
  "str_includes (pre @ wait_5m_30s @ post) [0x35] \<and>
   str_includes (pre @ wait_5m_30s @ post) [0x33, 0x30]"
proof -
  have "pre @ wait_5m_30s @ post =
      (pre @ [0x447, 0x435, 0x440, 0x435, 0x437, 0x20]) @ [0x35] @ ([0x43C, 0x20, 0x33, 0x30, 0x441] @ post)"
    by (simp add: wait_5m_30s_def)
  moreover have "pre @ wait_5m_30s @ post =
      (pre @ [0x447, 0x435, 0x440, 0x435, 0x437, 0x20, 0x35, 0x43C, 0x20]) @ [0x33, 0x30] @ ([0x441] @ post)"
    by (simp add: wait_5m_30s_def)
  ultimately show ?thesis unfolding str_includes_iff by blast
qed

section \<open>Validation before submission\<close>

text \<open>
  C1, as amended. A draft that violates a constraint that the validation tests (a title of 3
  to 100 characters, a salary of digits, a city id that is a number, a phone of at least 7
  digits, a description of 10 to 2000 characters) is stopped by the validation: submitting
  the form runs no part of the submit handler, so no request is sent to the job endpoint
  (nothing at all is emitted), whoever the user is and whatever the server would have
  answered. The draft stays as it was and the form's errors become those of the schema.
\<close>

theorem invalid_draft_sends_nothing:
  "\<not> satisfies_constraints (formValues s) \<Longrightarrow>
     emitted (submit_form usr cb r) s = [] \<and>
     fst (submit_form usr cb r s) = Inr () \<and>
     formValues (snd (submit_form usr cb r s)) = formValues s \<and>
     formErrors (snd (submit_form usr cb r s)) = zodResolver (formValues s)"
  by (simp add: submit_invalid emitted_def)

theorem invalid_draft_sends_nothing_witness:
  "\<not> satisfies_constraints (formValues short_description_state) \<and>
   emitted (submit_form (Some example_user) None (Resolved JNull)) short_description_state = []"
  using invalid_draft_sends_nothing
    [of short_description_state "Some example_user" None "Resolved JNull"]
    short_description_not_ok
  by simp

text \<open>
  The schema asks for a number, not for an integer: a draft whose city id is 1.5 violates the
  data model, passes the validation and is sent.
\<close>

theorem fractional_city_id_is_posted:
  "\<not> satisfies_data_model (formValues fractional_city_state) \<and>
   emitted (submit_form (Some example_user) None (Resolved JNull)) fractional_city_state =
     [AxiosPost jobs_url
        (JobBody (ascii ''Cook'') (ascii ''50'') (ParseInt (Some (3 / 2))) (ascii ''0501234567'')
           (ascii ''Night shifts in a bakery'') (ascii ''user_1'')),
      ToastSuccess (Literal msg_created), FormReset, SetTimeoutNavigate 2000 ''/'']"
proof -
  have "emitted (submit_form (Some example_user) None (Resolved JNull)) fractional_city_state =
      [job_request example_user (formValues fractional_city_state),
       ToastSuccess (Literal msg_created), FormReset, SetTimeoutNavigate 2000 ''/'']"
    by (simp add: submit_valid [OF fractional_city_accepted] onSubmit_resolved_no_callback
        after_reset_def emitted_def)
  moreover have "job_request example_user (formValues fractional_city_state) =
      AxiosPost jobs_url
        (JobBody (ascii ''Cook'') (ascii ''50'') (ParseInt (Some (3 / 2))) (ascii ''0501234567'')
           (ascii ''Night shifts in a bakery'') (ascii ''user_1''))"
    by (simp add: job_request_def fractional_city_state_def example_draft_def example_user_def)
  ultimately show ?thesis
    using fractional_city_not_integer by simp
qed

text \<open>
  C3. Without a signed-in user the submit handler shows the notification that the user must
  be signed in and does nothing else: for every draft, and so for every draft that satisfies
  the constraints and reaches the handler through the form, the only event is that toast
  and no request is sent.
\<close>

theorem unauthenticated_submit:
  "emitted (onSubmit None cb r d) s = [ToastError (Literal msg_auth_required)] \<and>
   (satisfies_constraints (formValues s) \<longrightarrow>
      emitted (submit_form None cb r) s = [ToastError (Literal msg_auth_required)])"
  by (simp add: submit_valid onSubmit_no_user emitted_def)

theorem unauthenticated_submit_witness:
  "satisfies_constraints (formValues example_state) \<and>
   emitted (submit_form None None (Resolved JNull)) example_state =
     [ToastError (Literal msg_auth_required)]"
  using unauthenticated_submit [of None "Resolved JNull" example_draft example_state]
    example_draft_ok
  by (simp add: example_state_def)

lemma inline_messages_of_other_fields:
  "\<not> satisfies_constraints (formValues s) \<Longrightarrow> f \<noteq> Description \<Longrightarrow>
   JobForm_inline (snd (submit_form usr cb r s)) f = zodResolver (formValues s) f"
  by (cases f) (simp_all add: submit_invalid JobForm_inline_def)

text \<open>
  C2. The schema gives the description its two messages, and after a submission with a
  description of five characters the form's errors hold the first of them; but the
  description block of the view renders no message paragraph, unlike the four fields above
  it, so nothing is shown next to any field for this draft.
\<close>

theorem description_message_not_rendered:
  "\<not> satisfies_constraints (formValues short_description_state) \<and>
   formErrors (snd (submit_form (Some example_user) None (Resolved JNull) short_description_state))
      Description = Some msg_min_10 \<and>
   list_all (\<lambda>f. JobForm_inline (snd (submit_form (Some example_user) None (Resolved JNull)
      short_description_state)) f = None) all_fields"
proof -
  have s: "submit_form (Some example_user) None (Resolved JNull) short_description_state =
      (Inr (), short_description_state\<lparr>formErrors := zodResolver (formValues short_description_state)\<rparr>)"
    by (rule submit_invalid [OF short_description_not_ok])
  have r: "zodResolver (formValues short_description_state) =
      (\<lambda>f. if f = Description then Some msg_min_10 else None)"
  proof
    fix f show "zodResolver (formValues short_description_state) f =
      (if f = Description then Some msg_min_10 else None)"
      by (cases f) (simp_all add: zodResolver_def jobSchema_def string_issues_def
        jobSchema_description_def jobSchema_title_def jobSchema_salary_def jobSchema_phone_def
        example_defs digits_only_def is_digit_def)
  qed
  show ?thesis
    unfolding s r by (simp add: short_description_not_ok JobForm_inline_def all_fields_def)
qed

section \<open>The success path\<close>

text \<open>
  C4, as amended. When the request succeeds, the success toast is shown and the form is
  reset to its defaults (empty strings, no city), in this order after the request; the
  callback, when there is one, is then called with the record of the server. When there is
  no callback or the callback returns, the navigation to the home view is scheduled after
  2000 ms, as the last event, and the handler returns.
\<close>
theorem successful_submit:
  "formValues (snd (onSubmit (Some u) cb (Resolved v) d s)) = defaultValues \<and>
   take 3 (emitted (onSubmit (Some u) cb (Resolved v) d) s) =
     [job_request u d, ToastSuccess (Literal msg_created), FormReset] \<and>
   (\<forall>f. cb = Some f \<longrightarrow> emitted (onSubmit (Some u) cb (Resolved v) d) s ! 3 = OnJobCreated v) \<and>
   ((case cb of None \<Rightarrow> True | Some f \<Rightarrow> f v = None) \<longrightarrow>
      fst (onSubmit (Some u) cb (Resolved v) d s) = Inr () \<and>
      emitted (onSubmit (Some u) cb (Resolved v) d) s =
       [job_request u d, ToastSuccess (Literal msg_created), FormReset]
       @ (case cb of None \<Rightarrow> [] | Some f \<Rightarrow> [OnJobCreated v])
       @ [SetTimeoutNavigate 2000 ''/''])"
proof (cases cb)
  case None
  then show ?thesis
    by (simp add: onSubmit_resolved_no_callback after_reset_def emitted_def)
next
  case (Some f)
  show ?thesis
  proof (cases "f v")
    case None
    with Some show ?thesis
      by (simp add: onSubmit_resolved_callback_returns after_reset_def emitted_def)
  next
    case (Some e)
    let ?s1 = "after_reset s
      [job_request u d, ToastSuccess (Literal msg_created), FormReset, OnJobCreated v]"
    obtain ts where c: "snd (onSubmit_catch e ?s1) = ?s1\<lparr>trace := trace ?s1 @ ts\<rparr>"
      using onSubmit_catch_appends [of e] unfolding appends_def by blast
    from Some have "snd (onSubmit (Some u) (Some f) (Resolved v) d s) =
        ?s1\<lparr>trace := trace ?s1 @ ts\<rparr>"
      by (simp only: onSubmit_resolved_callback_throws c)
    with Some \<open>cb = Some f\<close> show ?thesis
      by (simp add: after_reset_def emitted_def)
  qed
qed

theorem successful_submit_witness:
  "emitted (onSubmit (Some example_user) (Some returning_callback) (Resolved (JNum 7))
      example_draft) example_state =
     [job_request example_user example_draft, ToastSuccess (Literal msg_created), FormReset,
      OnJobCreated (JNum 7), SetTimeoutNavigate 2000 ''/'']"
  using successful_submit [of example_user "Some returning_callback" "JNum 7" example_draft
      example_state]
  by (simp add: returning_callback_def)

text \<open>
  The callback runs inside the \<open>try\<close> block: when it throws, the \<open>catch\<close> block shows the
  generic failure toast and the navigation is never scheduled, although the record was
  created.
\<close>

text \<open>
  The callback runs inside the \<open>try\<close> block: when it throws, the \<open>catch\<close> block shows the
  generic failure toast and the navigation is never scheduled, although the record was
  created.
\<close>

theorem throwing_callback_no_navigation:
  "satisfies_constraints example_draft \<and>
   emitted (onSubmit (Some example_user) (Some throwing_callback) (Resolved (JNum 7))
      example_draft) example_state =
     [job_request example_user example_draft, ToastSuccess (Literal msg_created), FormReset,
      OnJobCreated (JNum 7),
      ConsoleError log_job (LogMessage (ascii ''setJobs is not a function'')),
      ToastError (Literal msg_generic)] \<and>
   \<not> list_ex is_navigation
     (emitted (onSubmit (Some example_user) (Some throwing_callback) (Resolved (JNum 7))
        example_draft) example_state)"
proof -
  have t: "throwing_callback (JNum 7) = Some (Error None (ascii ''setJobs is not a function''))"
    by (simp add: throwing_callback_def)
  have n: "if_truthy (response (Error None (ascii ''setJobs is not a function''))) = None"
    by (simp add: if_truthy_def)
  show ?thesis
    by (simp add: example_draft_ok onSubmit_resolved_callback_throws [of throwing_callback "JNum 7", OF t]
        onSubmit_catch_no_body [OF n] after_reset_def emitted_def job_request_def)
qed

section \<open>Failed submissions\<close>

text \<open>
  C8. When the request fails, whatever the error, the submit handler leaves the draft and
  the form's errors as they were, does not reset the form and schedules no navigation.
  A reset or a scheduled navigation is seen only when there is a user and the request
  succeeded.
\<close>
theorem failed_submit_keeps_draft:
  "(r = Rejected err \<longrightarrow>
      formValues (snd (onSubmit usr cb r d s)) = formValues s \<and>
      formErrors (snd (onSubmit usr cb r d s)) = formErrors s \<and>
      FormReset \<notin> set (emitted (onSubmit usr cb r d) s) \<and>
      \<not> list_ex is_navigation (emitted (onSubmit usr cb r d) s)) \<and>
   (FormReset \<in> set (emitted (onSubmit usr cb r d) s) \<or>
    list_ex is_navigation (emitted (onSubmit usr cb r d) s) \<longrightarrow>
      (\<exists>u v. usr = Some u \<and> r = Resolved v))"
proof -
  have rej: "formValues (snd (onSubmit usr cb (Rejected e) d s)) = formValues s \<and>
      formErrors (snd (onSubmit usr cb (Rejected e) d s)) = formErrors s \<and>
      FormReset \<notin> set (emitted (onSubmit usr cb (Rejected e) d) s) \<and>
      \<not> list_ex is_navigation (emitted (onSubmit usr cb (Rejected e) d) s)" for e
  proof (cases usr)
    case None
    then show ?thesis by (simp add: onSubmit_no_user emitted_def)
  next
    case (Some u)
    let ?s1 = "s\<lparr>trace := trace s @ [job_request u d]\<rparr>"
    obtain ts where c: "snd (onSubmit_catch e ?s1) = ?s1\<lparr>trace := trace ?s1 @ ts\<rparr>"
      and ts: "list_all is_feedback ts"
      using onSubmit_catch_appends [of e] unfolding appends_def by blast
    have a: "FormReset \<notin> set ts"
      using ts feedback_only by (auto simp: list_all_iff)
    have b: "\<not> list_ex is_navigation ts"
      using ts feedback_only by (auto simp: list_all_iff list_ex_iff)
    from Some c a b show ?thesis
      by (simp add: onSubmit_rejected emitted_def job_request_def)
  qed
  have nouser: "emitted (onSubmit None cb r d) s = [ToastError (Literal msg_auth_required)]"
    by (simp add: onSubmit_no_user emitted_def)
  show ?thesis
  proof (intro conjI impI)
    assume "r = Rejected err"
    with rej [of err] show "formValues (snd (onSubmit usr cb r d s)) = formValues s"
      "formErrors (snd (onSubmit usr cb r d s)) = formErrors s"
      "FormReset \<notin> set (emitted (onSubmit usr cb r d) s)"
      "\<not> list_ex is_navigation (emitted (onSubmit usr cb r d) s)" by simp_all
  next
    assume h: "FormReset \<in> set (emitted (onSubmit usr cb r d) s) \<or>
      list_ex is_navigation (emitted (onSubmit usr cb r d) s)"
    show "\<exists>u v. usr = Some u \<and> r = Resolved v"
    proof (cases usr)
      case None
      with h nouser show ?thesis by simp
    next
      case (Some u)
      show ?thesis
      proof (cases r)
        case (Resolved v)
        with Some show ?thesis by simp
      next
        case (Rejected e)
        with h rej [of e] show ?thesis by simp
      qed
    qed
  qed
qed

theorem failed_submit_keeps_draft_witness:
  "formValues (snd (onSubmit (Some example_user) None (Rejected network_error) example_draft
      example_state)) = example_draft \<and>
   \<not> list_ex is_navigation (emitted (onSubmit (Some example_user) None (Rejected network_error)
      example_draft) example_state)"
  using failed_submit_keeps_draft [of "Rejected network_error" network_error
      "Some example_user" None example_draft example_state]
  by (simp add: example_state_def)

text \<open>
  C5, as amended. Take a failed submission whose body has an \<open>error\<close> string that contains
  the wait time ``in 5m 30s''. If the string carries the rate-limit marker and no wait time
  starts before that text, the one notification is the formatted one, with 5 minutes and 30
  seconds. If it carries neither the rate-limit marker nor the quota marker, the one
  notification is the string itself. In both cases the notification contains ``5'' and
  ``30''.
\<close>

theorem wait_time_notification:
  assumes "response err = Some body" and "get_prop body key_error = Some (JStr msg)"
    and "msg = pre @ wait_5m_30s @ post"
    and "(str_includes msg rate_limit_marker \<and> (\<forall>k<length pre. match_at (drop k msg) = None)) \<or>
         (\<not> str_includes msg rate_limit_marker \<and> \<not> str_includes msg quota_marker)"
  shows "toasts (onSubmit (Some u) cb (Rejected err) d) s =
      [ToastError (Literal
        (if str_includes msg rate_limit_marker then wait_message [0x35] [0x33, 0x30] else msg))] \<and>
     str_includes
       (if str_includes msg rate_limit_marker then wait_message [0x35] [0x33, 0x30] else msg)
       [0x35] \<and>
     str_includes
       (if str_includes msg rate_limit_marker then wait_message [0x35] [0x33, 0x30] else msg)
       [0x33, 0x30]"
proof -
  from assms(3) have ne: "msg \<noteq> []" by (simp add: wait_5m_30s_def)
  note t = toasts_rejected_error_string [OF assms(1) assms(2) ne, of u cb d s]
  show ?thesis
  proof (cases "str_includes msg rate_limit_marker")
    case True
    with assms(4) have "\<forall>k<length pre. match_at (drop k (pre @ wait_5m_30s @ post)) = None"
      using assms(3) by simp
    then have "wait_match msg = Some ([0x35], [0x33, 0x30])"
      using wait_match_skip [of pre "wait_5m_30s @ post"] wait_match_wait_5m_30s [of post] assms(3)
      by simp
    with True t wait_message_5_30 show ?thesis by simp
  next
    case False
    with assms(4) have "\<not> str_includes msg quota_marker" by blast
    with False t includes_5_30 [of pre post] assms(3) show ?thesis by simp
  qed
qed

theorem wait_time_notification_witness:
  "toasts (onSubmit (Some example_user) None
      (Rejected (server_error (error_body rate_limit_with_wait))) example_draft) example_state
     = [ToastError (Literal (wait_message [0x35] [0x33, 0x30]))] \<and>
   toasts (onSubmit (Some example_user) None
      (Rejected (server_error (error_body plain_with_wait))) example_draft) example_state
     = [ToastError (Literal plain_with_wait)] \<and>
   str_includes plain_with_wait [0x35] \<and> str_includes plain_with_wait [0x33, 0x30]"
proof -
  have c: "rate_limit_with_wait = (rate_limit_marker @ [0x20]) @ wait_5m_30s @ []"
    by (simp add: rate_limit_with_wait_def)
  have i: "str_includes rate_limit_with_wait rate_limit_marker"
    by (simp add: rate_limit_with_wait_def rate_limit_marker_def)
  have "0x447 \<notin> set (rate_limit_marker @ [0x20])"
    by (simp add: rate_limit_marker_def)
  then have "\<forall>k<length (rate_limit_marker @ [0x20]).
      match_at (drop k ((rate_limit_marker @ [0x20]) @ wait_5m_30s @ [])) = None"
    by (rule no_first_letter_no_match)
  with c have n: "\<forall>k<length (rate_limit_marker @ [0x20]). match_at (drop k rate_limit_with_wait) = None"
    by simp
  have c': "plain_with_wait = ascii ''Retry '' @ wait_5m_30s @ []"
    by (simp add: plain_with_wait_def)
  have r': "\<not> str_includes plain_with_wait rate_limit_marker"
    by (simp add: plain_with_wait_def ascii_def string_defs)
  have q': "\<not> str_includes plain_with_wait quota_marker"
    by (simp add: plain_with_wait_def ascii_def string_defs)
  from wait_time_notification [OF response_server_error get_prop_error_body c,
      of example_user None example_draft example_state] i n
  have first: "toasts (onSubmit (Some example_user) None
      (Rejected (server_error (error_body rate_limit_with_wait))) example_draft) example_state
     = [ToastError (Literal (wait_message [0x35] [0x33, 0x30]))]"
    by auto
  from wait_time_notification [OF response_server_error get_prop_error_body c',
      of example_user None example_draft example_state] r' q'
  have "toasts (onSubmit (Some example_user) None
      (Rejected (server_error (error_body plain_with_wait))) example_draft) example_state
     = [ToastError (Literal plain_with_wait)] \<and>
   str_includes plain_with_wait [0x35] \<and> str_includes plain_with_wait [0x33, 0x30]"
    by auto
  with first show ?thesis by blast
qed

text \<open>
  The regular expression takes the leftmost wait time: a rate-limit message with an earlier
  one is answered with the earlier minutes and seconds, and its notification contains
  neither ``5'' nor ``30''.
\<close>

theorem earlier_wait_time_wins:
  "str_includes two_wait_times rate_limit_marker \<and>
   str_includes two_wait_times wait_5m_30s \<and>
   toasts (onSubmit (Some example_user) None
      (Rejected (server_error (error_body two_wait_times))) example_draft) example_state
     = [ToastError (Literal (wait_message [0x31] [0x32]))] \<and>
   \<not> str_includes (wait_message [0x31] [0x32]) [0x35] \<and>
   \<not> str_includes (wait_message [0x31] [0x32]) [0x33, 0x30]"
proof -
  have ne: "two_wait_times \<noteq> []" by (simp add: two_wait_times_def rate_limit_marker_def)
  have r: "str_includes two_wait_times rate_limit_marker"
    by (simp add: two_wait_times_def string_defs)
  have i: "str_includes two_wait_times wait_5m_30s"
    by (simp add: two_wait_times_def string_defs)
  have w: "wait_match two_wait_times = Some ([0x31], [0x32])"
    by (simp add: two_wait_times_def string_defs match_at_def re_through_def re_m_def re_s_def
        is_digit_def)
  have m: "\<not> str_includes (wait_message [0x31] [0x32]) [0x35]"
    "\<not> str_includes (wait_message [0x31] [0x32]) [0x33, 0x30]"
    by (simp_all add: string_defs)
  from toasts_rejected_error_string [OF response_server_error get_prop_error_body ne,
      of example_user None example_draft example_state]
    r i w m show ?thesis by simp
qed

text \<open>Nor does a message that carries the quota marker and no rate-limit marker.\<close>

lemma quota_marker_hides_wait_time:
  "str_includes quota_with_wait wait_5m_30s \<and>
   toasts (onSubmit (Some example_user) None
      (Rejected (server_error (error_body quota_with_wait))) example_draft) example_state
     = [ToastError (Literal msg_quota)] \<and>
   \<not> str_includes msg_quota [0x35]"
proof -
  have ne: "quota_with_wait \<noteq> []" by (simp add: quota_with_wait_def quota_marker_def)
  have i: "str_includes quota_with_wait wait_5m_30s"
    by (simp add: quota_with_wait_def quota_marker_def wait_5m_30s_def)
  have r: "\<not> str_includes quota_with_wait rate_limit_marker"
    by (simp add: quota_with_wait_def string_defs)
  have q: "str_includes quota_with_wait quota_marker"
    by (simp add: quota_with_wait_def string_defs)
  have m: "\<not> str_includes msg_quota [0x35]"
    by (simp add: msg_quota_def)
  from toasts_rejected_error_string [OF response_server_error get_prop_error_body ne,
      of example_user None example_draft example_state]
    i r q m show ?thesis by simp
qed

text \<open>
  C6, as amended. For a failed submission whose \<open>error\<close> string contains the quota marker
  and does not contain the rate-limit marker, the one notification is the fixed quota
  message, whatever else the string says.
\<close>

theorem quota_notification:
  assumes "response err = Some body" and "get_prop body key_error = Some (JStr msg)"
    and "str_includes msg quota_marker" and "\<not> str_includes msg rate_limit_marker"
  shows "toasts (onSubmit (Some u) cb (Rejected err) d) s = [ToastError (Literal msg_quota)]"
proof -
  from assms(3) have "msg \<noteq> []"
    by (rule str_includes_nonempty) (simp add: quota_marker_def)
  from toasts_rejected_error_string [OF assms(1) assms(2) this, of u cb d s] assms(3) assms(4)
  show ?thesis by simp
qed

theorem quota_notification_witness:
  "toasts (onSubmit (Some example_user) None
      (Rejected (server_error (error_body quota_marker))) example_draft) example_state
     = [ToastError (Literal msg_quota)]"
proof -
  have q: "str_includes quota_marker quota_marker"
    by (simp add: quota_marker_def)
  have r: "\<not> str_includes quota_marker rate_limit_marker"
    by (simp add: string_defs)
  show ?thesis
    by (rule quota_notification [OF response_server_error get_prop_error_body q r])
qed

text \<open>
  The rate-limit test comes first: a string with both markers and no wait time is shown as it
  is, not replaced by the quota message.
\<close>

theorem rate_limit_marker_hides_quota:
  "str_includes both_markers quota_marker \<and>
   toasts (onSubmit (Some example_user) None
      (Rejected (server_error (error_body both_markers))) example_draft) example_state
     = [ToastError (Literal both_markers)] \<and>
   both_markers \<noteq> msg_quota"
proof -
  have ne: "both_markers \<noteq> []" by (simp add: both_markers_def rate_limit_marker_def)
  have q: "str_includes both_markers quota_marker"
    by (simp add: both_markers_def string_defs)
  have r: "str_includes both_markers rate_limit_marker"
    by (simp add: both_markers_def string_defs)
  have w: "wait_match both_markers = None"
    by (simp add: both_markers_def string_defs match_at_def re_through_def)
  have m: "both_markers \<noteq> msg_quota"
    by (simp add: both_markers_def string_defs)
  from toasts_rejected_error_string [OF response_server_error get_prop_error_body ne,
      of example_user None example_draft example_state]
    q r w m show ?thesis by simp
qed

lemma wait_message_not_quota: "wait_message m sec \<noteq> msg_quota"
  by (simp add: string_defs)

text \<open>
  C10, as amended. When the body has a non-empty \<open>error\<close> string, the notifications depend
  on that string alone: any other failed response with the same string, whatever its
  \<open>errors\<close> list, gives the same notifications. When the string contains the rate-limit
  marker, it gets the rate-limit treatment (the formatted wait time, or the string itself
  when no wait time matches) and never the quota message, whether or not it also contains
  the quota marker.
\<close>

theorem error_branch_order:
  assumes "response err = Some body" and "get_prop body key_error = Some (JStr msg)"
    and "msg \<noteq> []"
  shows "(response err' = Some body' \<and> get_prop body' key_error = Some (JStr msg) \<longrightarrow>
            toasts (onSubmit (Some u) cb (Rejected err') d) s =
            toasts (onSubmit (Some u) cb (Rejected err) d) s) \<and>
         (str_includes msg rate_limit_marker \<longrightarrow>
            toasts (onSubmit (Some u) cb (Rejected err) d) s =
              [ToastError (Literal (case wait_match msg of
                  Some (minutesLeft, secondsLeft) \<Rightarrow> wait_message minutesLeft secondsLeft
                | None \<Rightarrow> msg))] \<and>
            toasts (onSubmit (Some u) cb (Rejected err) d) s \<noteq> [ToastError (Literal msg_quota)])"
proof (intro conjI impI)
  assume "response err' = Some body' \<and> get_prop body' key_error = Some (JStr msg)"
  then have a: "response err' = Some body'" and b: "get_prop body' key_error = Some (JStr msg)"
    by simp_all
  show "toasts (onSubmit (Some u) cb (Rejected err') d) s =
        toasts (onSubmit (Some u) cb (Rejected err) d) s"
    by (simp only: toasts_rejected_error_string [OF a b assms(3)]
        toasts_rejected_error_string [OF assms])
next
  assume r: "str_includes msg rate_limit_marker"
  then show "toasts (onSubmit (Some u) cb (Rejected err) d) s =
      [ToastError (Literal (case wait_match msg of
          Some (minutesLeft, secondsLeft) \<Rightarrow> wait_message minutesLeft secondsLeft
        | None \<Rightarrow> msg))]"
    by (simp add: toasts_rejected_error_string [OF assms])
next
  assume r: "str_includes msg rate_limit_marker"
  have "\<not> str_includes msg_quota rate_limit_marker" by (simp add: string_defs)
  with r have "msg \<noteq> msg_quota" by blast
  with r show "toasts (onSubmit (Some u) cb (Rejected err) d) s \<noteq> [ToastError (Literal msg_quota)]"
    by (simp add: toasts_rejected_error_string [OF assms] wait_message_not_quota
        split: option.splits)
qed

theorem error_branch_order_witness:
  "toasts (onSubmit (Some example_user) None
      (Rejected (server_error both_markers_with_list)) example_draft) example_state =
   toasts (onSubmit (Some example_user) None
      (Rejected (server_error (error_body both_markers))) example_draft) example_state \<and>
   toasts (onSubmit (Some example_user) None
      (Rejected (server_error (error_body both_markers))) example_draft) example_state
     \<noteq> [ToastError (Literal msg_quota)]"
proof -
  have ne: "both_markers \<noteq> []" by (simp add: both_markers_def rate_limit_marker_def)
  have r: "str_includes both_markers rate_limit_marker"
    by (simp add: both_markers_def string_defs)
  have b': "get_prop both_markers_with_list key_error = Some (JStr both_markers)"
    by (simp add: both_markers_with_list_def)
  from error_branch_order [OF response_server_error get_prop_error_body ne,
      of "server_error both_markers_with_list" both_markers_with_list
         example_user None example_draft example_state]
    r response_server_error [of both_markers_with_list] b'
  show ?thesis by blast
qed

text \<open>
  The test of line 100 is on the truth value of the string: an empty \<open>error\<close> string is
  false, and then the \<open>errors\<close> list is consulted, one notification for each element.
\<close>

theorem empty_error_string_consults_list:
  "get_prop empty_error_with_list key_error = Some (JStr []) \<and>
   toasts (onSubmit (Some example_user) None (Rejected (server_error empty_error_with_list))
      example_draft) example_state = [ToastError (Literal (ascii ''Title is required''))] \<and>
   toasts (onSubmit (Some example_user) None (Rejected (server_error (error_body [])))
      example_draft) example_state = [ToastError (Literal msg_generic)]"
proof -
  have e: "get_prop empty_error_with_list key_error = Some (JStr [])"
    by (simp add: empty_error_with_list_def)
  have t: "if_truthy (get_prop empty_error_with_list key_error) = None"
    by (simp add: e if_truthy_def)
  have l: "get_prop empty_error_with_list key_errors =
      Some (JArr [JStr (ascii ''Title is required'')])"
    using keys_differ by (simp add: empty_error_with_list_def)
  have t': "if_truthy (get_prop (error_body []) key_error) = None"
    by (simp add: get_prop_error_body if_truthy_def)
  have l': "if_truthy (get_prop (error_body []) key_errors) = None"
    by (simp add: error_body_no_errors if_truthy_def)
  have o: "truthy (error_body [])" by (simp add: error_body_def)
  show ?thesis
    by (simp add: e toasts_rejected_errors_array [OF response_server_error t l]
        toasts_rejected_no_fields [OF response_server_error o t' l'] template_def)
qed

section \<open>Failures of the four requests\<close>














text \<open>Neither does a failed submission whose body is an empty list of errors.\<close>

lemma empty_error_list_is_silent:
  "toasts (onSubmit (Some example_user) None
     (Rejected (server_error (JObj [(key_errors, JArr [])]))) example_draft) example_state = []"
proof -
  have t: "if_truthy (get_prop (JObj [(key_errors, JArr [])]) key_error) = None"
    using keys_differ by (simp add: if_truthy_def)
  have l: "get_prop (JObj [(key_errors, JArr [])]) key_errors = Some (JArr [])"
    by simp
  show ?thesis
    by (simp add: toasts_rejected_errors_array [OF response_server_error t l])
qed

text \<open>
  The lines of the \<open>catch\<close> block call methods of what the server sent. With an \<open>error\<close>
  that is a number, or an \<open>errors\<close> that is a string, the call throws inside the \<open>catch\<close>
  block: the handler ends with that exception and no notification.
\<close>

lemma ill_typed_body_throws:
  "onSubmit (Some example_user) None (Rejected (server_error numeric_error_body)) example_draft
     example_state =
     (Inl (type_error ''errorMessage.includes is not a function''),
      example_state\<lparr>trace := [job_request example_user example_draft,
        ConsoleError log_job (LogBody numeric_error_body)]\<rparr>) \<and>
   onSubmit (Some example_user) None (Rejected (server_error text_errors_body)) example_draft
     example_state =
     (Inl (type_error ''error.response.data.errors.forEach is not a function''),
      example_state\<lparr>trace := [job_request example_user example_draft,
        ConsoleError log_job (LogBody text_errors_body)]\<rparr>)"
proof -
  have a: "get_prop text_errors_body key_error = None"
    using keys_differ by (simp add: text_errors_body_def)
  have b: "trace example_state = []"
    by (simp add: example_state_def form_init_def)
  show ?thesis
    by (simp add: onSubmit_rejected onSubmit_catch_def response_server_error if_truthy_def
        numeric_error_body_def js_includes_def a b)
      (simp add: text_errors_body_def js_forEach_def prog_defs ascii_def)
qed

section \<open>The premium panel\<close>

text \<open>
  C9. After the premium status of a signed-in user has been fetched, the panel shows the
  purchase button exactly when the fetched flag is false, and the label of a purchased
  premium (with the active label on the trigger) exactly when it is true.
\<close>

theorem premium_panel_follows_status:
  "usr = Some u \<Longrightarrow> r = Resolved st \<Longrightarrow>
     (sheet_footer (PremiumButton_render (snd (fetchUserPremiumStatus usr r s)))
        = PurchaseButton (T ''purchase'') \<longleftrightarrow> \<not> data_isPremium st) \<and>
     (sheet_footer (PremiumButton_render (snd (fetchUserPremiumStatus usr r s)))
        = Label (T ''purchased'') \<longleftrightarrow> data_isPremium st) \<and>
     (trigger_label (PremiumButton_render (snd (fetchUserPremiumStatus usr r s)))
        = T ''premium_active'' \<longleftrightarrow> data_isPremium st) \<and>
     emitted (fetchUserPremiumStatus usr r) s = [AxiosGet (user_url u)]"
  by (simp add: fetchUserPremiumStatus_def PremiumButton_render_def setIsPremium_def prog_defs
      emitted_def)

theorem premium_panel_follows_status_witness:
  "sheet_footer (PremiumButton_render (snd (fetchUserPremiumStatus (Some example_user)
      (Resolved \<lparr>data_isPremium = True\<rparr>) premium_init))) = Label (T ''purchased'') \<and>
   sheet_footer (PremiumButton_render premium_init) = PurchaseButton (T ''purchase'')"
  using premium_panel_follows_status [of "Some example_user" example_user
      "Resolved \<lparr>data_isPremium = True\<rparr>" "\<lparr>data_isPremium = True\<rparr>" premium_init]
  by (simp add: PremiumButton_render_def premium_init_def)

end
